theory Spec2Isabelle
  imports Complex_Main "HOL-Library.Product_Lexorder" "HOL-Library.List_Lexorder"
    "HOL-Library.Char_ord" "HOL-Library.Sublist"
begin

section \<open>Data model: the surveillance table\<close>

text \<open>
  One row of the surveillance CSV (\<^verbatim>\<open>ml_final_100pct_geometry.csv\<close>): a district in one
  epidemiological week of one year. The columns are the ones the dashboard pages read.
  \<^verbatim>\<open>cases\<close>, \<^verbatim>\<open>deaths\<close> and \<^verbatim>\<open>population\<close> are counts (non-negative integers); the
  pandas data frame is the list of its rows, in file order.
\<close>

record surveillance_row =
  region :: string
  district_clean :: string
  data_year :: int
  week_number :: int
  cases :: nat
  deaths :: nat
  population :: nat

type_synonym dataframe = "surveillance_row list"

section \<open>pandas primitives used by the pages\<close>

text \<open>
  \<^verbatim>\<open>Series.mean()\<close> of a column of counts. Every call below is on a frame that a length guard
  has shown to be non-empty (pandas gives NaN on an empty column; that case is never reached).
\<close>

definition mean :: "nat list \<Rightarrow> real" where
  "mean xs = real (sum_list xs) / real (length xs)"

text \<open>
  \<^verbatim>\<open>df.nlargest(n, ['data_year', 'week_number'])\<close>: the first \<open>n\<close> rows of the frame sorted by
  (year, week) descending, ties kept in frame order (\<^verbatim>\<open>keep='first'\<close>);
  \<^verbatim>\<open>df.nsmallest(n, ...)\<close> likewise, ascending. \<open>sort_key\<close> is a stable sort.
\<close>

definition nlargest :: "nat \<Rightarrow> dataframe \<Rightarrow> dataframe" where
  "nlargest n df = take n (sort_key (\<lambda>r. (- data_year r, - week_number r)) df)"

definition nsmallest :: "nat \<Rightarrow> dataframe \<Rightarrow> dataframe" where
  "nsmallest n df = take n (sort_key (\<lambda>r. (data_year r, week_number r)) df)"

text \<open>\<^verbatim>\<open>df.tail(n)\<close> and \<^verbatim>\<open>df.head(n)\<close>: the last and the first \<open>n\<close> rows in frame order.\<close>

definition df_tail :: "nat \<Rightarrow> 'a list \<Rightarrow> 'a list" where
  "df_tail n df = drop (length df - n) df"

definition df_head :: "nat \<Rightarrow> 'a list \<Rightarrow> 'a list" where
  "df_head n df = take n df"

text \<open>\<^verbatim>\<open>df[df['district_clean'] == district]\<close>\<close>

definition rows_of_district :: "dataframe \<Rightarrow> string \<Rightarrow> dataframe" where
  "rows_of_district df district = filter (\<lambda>r. district_clean r = district) df"

section \<open>Forecasting layer\<close>

text \<open>
  \<^verbatim>\<open>make_simple_prediction\<close> of \<^verbatim>\<open>pages/4_Predictions_BILINGUAL.py\<close>. It returns \<^verbatim>\<open>None\<close> below
  12 rows; otherwise the mean of the 12 most recent rows times the trend factor (mean of the
  most recent 4 over the mean of the 8 before them, 1.0 when that mean is not positive) raised
  to the dampening exponent. Floats are read as reals; \<open>powr\<close> is Python's \<^verbatim>\<open>**\<close> on a
  non-negative base with a positive exponent, which is the only way it is called here.
\<close>

definition make_simple_prediction_bilingual :: "dataframe \<Rightarrow> string \<Rightarrow> int \<Rightarrow> real option" where
  "make_simple_prediction_bilingual df district weeks_ahead =
     (let district_data = rows_of_district df district in
      if length district_data < 12 then None
      else
        let recent_data = nlargest 12 district_data;
            avg_cases = mean (map cases recent_data);
            trend_factor =
              (if length recent_data \<ge> 12 then
                 let recent_4 = mean (map cases (nlargest 4 recent_data));
                     previous_8 = mean (map cases (nsmallest 8 (nlargest 12 recent_data)))
                 in if previous_8 > 0 then recent_4 / previous_8 else 1
               else 1);
            dampening = max (1 - (real_of_int weeks_ahead - 1) * 0.05) 0.7;
            predicted = avg_cases * (trend_factor powr dampening)
        in Some (max 0 predicted))"

text \<open>
  \<^verbatim>\<open>make_simple_prediction\<close> of \<^verbatim>\<open>pages/4_Predictions.py\<close> (the page whose file name carries a
  target emoji). It looks at the last 12 rows in frame order, returns \<^verbatim>\<open>None\<close> below 4 rows,
  and otherwise the mean of the last 4 rows plus, from 8 rows on, half the difference between
  that mean and the mean of the first 4 of the window. The horizon is not used.
\<close>

definition make_simple_prediction :: "dataframe \<Rightarrow> string \<Rightarrow> int \<Rightarrow> real option" where
  "make_simple_prediction df district weeks_ahead =
     (let district_data = rows_of_district df district;
          recent = df_tail 12 district_data
      in if length recent < 4 then None
         else
           let predicted_cases = mean (map cases (df_tail 4 recent));
               predicted_cases' =
                 (if length recent \<ge> 8 then
                    let older_avg = mean (map cases (df_head 4 recent));
                        newer_avg = mean (map cases (df_tail 4 recent));
                        trend = newer_avg - older_avg
                    in predicted_cases + trend * 0.5
                  else predicted_cases)
           in Some (max 0 predicted_cases'))"

text \<open>
  A district's time-ordered history as a frame: one row per week of 2024, from week 1 on, with
  the given case counts.
\<close>

fun history_rows :: "string \<Rightarrow> int \<Rightarrow> nat list \<Rightarrow> dataframe" where
  "history_rows d w [] = []"
| "history_rows d w (c # cs) =
     \<lparr>region = ''Nord'', district_clean = d, data_year = 2024, week_number = w,
      cases = c, deaths = 0, population = 1000\<rparr> # history_rows d (w + 1) cs"

definition history_8 :: dataframe where
  "history_8 = history_rows ''Garoua'' 1 [5, 5, 5, 5, 50, 50, 50, 50]"

definition history_12 :: dataframe where
  "history_12 = history_rows ''Garoua'' 1 [5, 5, 5, 5, 5, 5, 5, 5, 50, 50, 50, 50]"

definition history_3 :: dataframe where
  "history_3 = history_rows ''Garoua'' 1 [7, 7, 7]"

definition history_const_12 :: dataframe where
  "history_const_12 = history_rows ''Garoua'' 1 (replicate 12 7)"

section \<open>Classification layer: risk tiers\<close>

text \<open>
  \<^verbatim>\<open>Series.quantile(q)\<close> is a call into pandas, which computes the percentile of the column in
  binary floating point. It is a parameter of the model: a function from the column and the
  level to the float it returns, read as the real number that float denotes, with NaN (the
  answer on an empty column) as \<open>None\<close>. Nothing is assumed about how it interpolates or
  rounds.
\<close>

type_synonym quantile_fn = "nat list \<Rightarrow> real \<Rightarrow> real option"

text \<open>The comparison \<^verbatim>\<open>value > threshold\<close>; it is false when the threshold is NaN.\<close>

definition exceeds :: "real \<Rightarrow> real option \<Rightarrow> bool" where
  "exceeds v t = (case t of None \<Rightarrow> False | Some p \<Rightarrow> v > p)"

datatype risk_tier = Low | Moderate | High | Critical

text \<open>
  \<^verbatim>\<open>classify_risk_level\<close>, the same cascade in \<^verbatim>\<open>pages/4_Predictions_BILINGUAL.py\<close> and in
  \<^verbatim>\<open>pages/4_Predictions.py\<close>: the percentiles of the \<^verbatim>\<open>cases\<close> column of the reference frame
  (the three calls of \<^verbatim>\<open>quantile\<close>, here the parameter of that name), then strict comparisons
  from the top tier down. The source returns a label, a CSS class and a colour;
  \<open>risk_strings\<close> gives them per tier (the label without its emoji).
\<close>

definition classify_risk_level :: "quantile_fn \<Rightarrow> real \<Rightarrow> dataframe \<Rightarrow> risk_tier" where
  "classify_risk_level quantile predicted_cases district_data =
     (let cases_series = map cases district_data;
          p50 = quantile cases_series 0.50;
          p75 = quantile cases_series 0.75;
          p90 = quantile cases_series 0.90
      in if exceeds predicted_cases p90 then Critical
         else if exceeds predicted_cases p75 then High
         else if exceeds predicted_cases p50 then Moderate
         else Low)"



fun risk_strings :: "risk_tier \<Rightarrow> string \<times> string \<times> string" where
  "risk_strings Critical = (''Critical'', ''risk-critical'', ''#DC3545'')"
| "risk_strings High = (''High'', ''risk-high'', ''#FFC107'')"
| "risk_strings Moderate = (''Moderate'', ''risk-moderate'', ''#17A2B8'')"
| "risk_strings Low = (''Low'', ''risk-low'', ''#28A745'')"

text \<open>The priority order of the tiers: Low < Moderate < High < Critical.\<close>

fun tier_rank :: "risk_tier \<Rightarrow> nat" where
  "tier_rank Low = 0"
| "tier_rank Moderate = 1"
| "tier_rank High = 2"
| "tier_rank Critical = 3"

text \<open>
  The ranking scenario of the specification: a reference frame of five rows with the case
  counts 100, 80, 50, 20 and 5, and the percentiles pandas returns on that column: 50.0 at
  level 0.50, 80.0 at level 0.75 and 92.0 at level 0.90.
\<close>

definition ranking_frame :: dataframe where
  "ranking_frame = history_rows ''Garoua'' 1 [100, 80, 50, 20, 5]"

definition ranking_quantile :: quantile_fn where
  "ranking_quantile xs q =
     (if xs = [100, 80, 50, 20, 5]
      then (if q = 0.50 then Some 50 else if q = 0.75 then Some 80
            else if q = 0.90 then Some 92 else None)
      else None)"

section \<open>Aggregation layer (Check/pages/1\_Overview.py)\<close>

text \<open>
  A float column as pandas computes it from two integer columns: an integer division by zero
  does not raise, it gives NaN for \<open>0 / 0\<close> and \<open>inf\<close> (here \<open>PosInf\<close>) for a positive numerator.
\<close>

datatype pd_float = Finite real | NaN | PosInf

definition pd_div :: "nat \<Rightarrow> nat \<Rightarrow> pd_float" where
  "pd_div a b = (if b = 0 then (if a = 0 then NaN else PosInf) else Finite (real a / real b))"

text \<open>Multiplication of a float column by a positive constant.\<close>

fun pd_times :: "pd_float \<Rightarrow> real \<Rightarrow> pd_float" where
  "pd_times (Finite x) k = Finite (x * k)"
| "pd_times NaN k = NaN"
| "pd_times PosInf k = PosInf"

text \<open>\<^verbatim>\<open>.fillna(0)\<close> replaces NaN and nothing else.\<close>

fun fillna0 :: "pd_float \<Rightarrow> pd_float" where
  "fillna0 NaN = Finite 0"
| "fillna0 x = x"

text \<open>
  The filter every function of the page starts with:
  \<^verbatim>\<open>df[df['data_year'].isin(selected_years) & df['region'].isin(selected_regions)]\<close>.
\<close>

definition filter_df :: "dataframe \<Rightarrow> int list \<Rightarrow> string list \<Rightarrow> dataframe" where
  "filter_df df selected_years selected_regions =
     filter (\<lambda>r. data_year r \<in> set selected_years \<and> region r \<in> set selected_regions) df"

text \<open>\<^verbatim>\<open>Series.nunique()\<close> and \<^verbatim>\<open>Series.max()\<close> (NaN, here \<open>None\<close>, on an empty series).\<close>

definition nunique :: "'a list \<Rightarrow> nat" where
  "nunique xs = length (remdups xs)"

definition series_max :: "int list \<Rightarrow> int option" where
  "series_max xs = (if xs = [] then None else Some (fold max (tl xs) (hd xs)))"

record kpis =
  kpi_total_cases :: nat
  kpi_total_deaths :: nat
  overall_cfr :: real
  affected_districts :: nat
  total_districts :: nat
  current_week_cases :: nat
  active_outbreaks :: nat
  latest_year :: "int option"
  latest_week :: "int option"
  yoy_change :: real
  prev_year_cases :: nat

text \<open>
  \<^verbatim>\<open>compute_kpis\<close>. The overall CFR is guarded by \<^verbatim>\<open>if total_cases > 0 else 0\<close>. A comparison
  of a column with NaN (the latest year or week of an empty frame) selects no row.
\<close>

definition compute_kpis :: "dataframe \<Rightarrow> int list \<Rightarrow> string list \<Rightarrow> kpis" where
  "compute_kpis df selected_years selected_regions =
     (let df_filtered = filter_df df selected_years selected_regions;
          total_cases = sum_list (map cases df_filtered);
          total_deaths = sum_list (map deaths df_filtered);
          overall_cfr = (if total_cases > 0 then real total_deaths / real total_cases * 100 else 0);
          affected_districts = nunique (map district_clean (filter (\<lambda>r. cases r > 0) df_filtered));
          total_districts = nunique (map district_clean df_filtered);
          latest_year = series_max (map data_year df_filtered);
          latest_week =
            series_max (map week_number (filter (\<lambda>r. Some (data_year r) = latest_year) df_filtered));
          current_week_data =
            filter (\<lambda>r. Some (data_year r) = latest_year \<and> Some (week_number r) = latest_week)
              df_filtered;
          current_week_cases = sum_list (map cases current_week_data);
          active_outbreaks = length (filter (\<lambda>r. cases r > 0) current_week_data);
          prev_year_data =
            filter (\<lambda>r. Some (data_year r + 1) = latest_year \<and> Some (week_number r) = latest_week)
              df_filtered;
          prev_year_cases = sum_list (map cases prev_year_data);
          yoy_change =
            (if prev_year_cases > 0
             then (real current_week_cases - real prev_year_cases) / real prev_year_cases * 100
             else 0)
      in \<lparr>kpi_total_cases = total_cases, kpi_total_deaths = total_deaths,
          overall_cfr = overall_cfr, affected_districts = affected_districts,
          total_districts = total_districts, current_week_cases = current_week_cases,
          active_outbreaks = active_outbreaks, latest_year = latest_year,
          latest_week = latest_week, yoy_change = yoy_change,
          prev_year_cases = prev_year_cases\<rparr>)"

text \<open>
  \<^verbatim>\<open>groupby(key)\<close>: the groups in ascending key order, each with its rows in frame order.
  (For the categorical \<^verbatim>\<open>region\<close> column pandas may also list categories with no row; their
  sums are 0 and they change no total. The model lists the groups that have rows.)
\<close>

definition groupby :: "('a \<Rightarrow> 'k::linorder) \<Rightarrow> 'a list \<Rightarrow> ('k \<times> 'a list) list" where
  "groupby key df = map (\<lambda>k. (k, filter (\<lambda>r. key r = k) df)) (sort (remdups (map key df)))"

record yearly_row =
  yr_data_year :: int
  yr_cases :: nat
  yr_deaths :: nat
  yr_cfr :: pd_float

text \<open>
  \<^verbatim>\<open>get_temporal_data\<close>: yearly sums, then
  \<^verbatim>\<open>(yearly_data['deaths'] / yearly_data['cases'] * 100).fillna(0)\<close>.
\<close>

definition get_temporal_data :: "dataframe \<Rightarrow> int list \<Rightarrow> string list \<Rightarrow> yearly_row list" where
  "get_temporal_data df selected_years selected_regions =
     (let df_filtered = filter_df df selected_years selected_regions
      in map (\<lambda>(y, rows).
                let c = sum_list (map cases rows); d = sum_list (map deaths rows)
                in \<lparr>yr_data_year = y, yr_cases = c, yr_deaths = d,
                    yr_cfr = fillna0 (pd_times (pd_div d c) 100)\<rparr>)
           (groupby data_year df_filtered))"

record regional_row =
  rg_region :: string
  total_cases :: nat
  total_deaths :: nat
  num_districts :: nat
  rg_population :: nat
  cfr :: pd_float
  incidence_rate :: pd_float

text \<open>
  \<^verbatim>\<open>get_regional_data\<close>: per region the sums of cases and deaths, the number of distinct
  districts and the first population value (every group of \<open>groupby\<close> has a row, so the head
  exists); then CFR and incidence rate, and the rows sorted
  by total cases, descending (modelled as a stable sort; the source's order among equal totals
  is the sorting algorithm's).
\<close>

definition regional_row_of :: "string \<times> dataframe \<Rightarrow> regional_row" where
  "regional_row_of g =
     (let rows = snd g;
          c = sum_list (map cases rows);
          d = sum_list (map deaths rows);
          pop = population (hd rows)
      in \<lparr>rg_region = fst g, total_cases = c, total_deaths = d,
          num_districts = nunique (map district_clean rows), rg_population = pop,
          cfr = fillna0 (pd_times (pd_div d c) 100),
          incidence_rate = fillna0 (pd_times (pd_div c pop) 100000)\<rparr>)"

definition get_regional_data :: "dataframe \<Rightarrow> int list \<Rightarrow> string list \<Rightarrow> regional_row list" where
  "get_regional_data df selected_years selected_regions =
     (let df_filtered = filter_df df selected_years selected_regions;
          regional_data = map regional_row_of (groupby region df_filtered)
      in sort_key (\<lambda>g. - int (total_cases g)) regional_data)"

text \<open>
  A frame with one record that reports a death and no case (the table is not checked for
  \<open>deaths \<le> cases\<close>).
\<close>

definition death_without_case :: dataframe where
  "death_without_case =
     [\<lparr>region = ''Nord'', district_clean = ''Garoua'', data_year = 2024, week_number = 1,
       cases = 0, deaths = 1, population = 1000\<rparr>]"

section \<open>Classification layer: spatial clusters (pages/6\_LISA\_Analysis.py)\<close>

text \<open>
  The cluster labels; \<^verbatim>\<open>get_text\<close> turns them into the display strings of the current
  language (\<^verbatim>\<open>'High-High'\<close>, \<^verbatim>\<open>'Low-High'\<close>, \<^verbatim>\<open>'Low-Low'\<close>, \<^verbatim>\<open>'High-Low'\<close>,
  \<^verbatim>\<open>'Not Significant'\<close> in English).
\<close>

datatype cluster_label = HighHigh | LowHigh | LowLow | HighLow | NotSignificant

record lisa_row =
  lr_district :: string
  lr_cases :: nat
  lr_deaths :: "nat option"
  lr_population :: "nat option"
  lr_incidence_rate :: pd_float
  lisa_quadrant :: int
  lisa_pvalue :: real
  lisa_cluster :: cluster_label

text \<open>The dictionary \<^verbatim>\<open>quadrant_labels\<close>, in its insertion order.\<close>

definition quadrant_labels :: "(int \<times> cluster_label) list" where
  "quadrant_labels = [(1, HighHigh), (2, LowHigh), (3, LowLow), (4, HighLow)]"

text \<open>
  One turn of the loop \<^verbatim>\<open>for q, label in quadrant_labels.items()\<close>: the rows whose quadrant is
  \<open>q\<close> and whose significance mask is set get the label; the others keep theirs.
\<close>

definition assign_label ::
  "int list \<Rightarrow> bool list \<Rightarrow> cluster_label list \<Rightarrow> int \<times> cluster_label \<Rightarrow> cluster_label list" where
  "assign_label q sig_mask col ql =
     map (\<lambda>(qi, s, c). if qi = fst ql \<and> s then snd ql else c) (zip q (zip sig_mask col))"

text \<open>
  The classification block of \<^verbatim>\<open>compute_lisa_for_year\<close>: every row starts as not significant,
  the mask is \<^verbatim>\<open>lisa.p_sim < 0.05\<close>, and the loop then writes the quadrant labels.
\<close>

definition classify_clusters :: "int list \<Rightarrow> real list \<Rightarrow> cluster_label list" where
  "classify_clusters q p_sim =
     (let init = replicate (length q) NotSignificant;
          sig_mask = map (\<lambda>p. p < 0.05) p_sim
      in foldl (assign_label q sig_mask) init quadrant_labels)"

text \<open>
  \<^verbatim>\<open>compute_lisa_for_year(_gdf, _w, df, year)\<close>. The geometry frame is the list of its district
  names; \<open>moran\<close> stands for the library call \<^verbatim>\<open>Moran_Local(y, _w)\<close> with the weights fixed: it
  gives the quadrant codes and the permutation p-values, or \<open>None\<close> when it raises. The year's
  rows are summed per district and left-merged onto the geometry; a district with no row gets
  0 cases. A zero total returns \<^verbatim>\<open>None\<close> before the library is called; an exception (also the
  one of assigning a column of the wrong length) is caught and returns \<^verbatim>\<open>None\<close>.
\<close>

definition compute_lisa_for_year ::
  "(nat list \<Rightarrow> (int list \<times> real list) option) \<Rightarrow> string list \<Rightarrow> dataframe \<Rightarrow> int
     \<Rightarrow> lisa_row list option" where
  "compute_lisa_for_year moran gdf df year =
     (let year_data = map_of (groupby district_clean (filter (\<lambda>r. data_year r = year) df));
          merged_cases =
            map (\<lambda>d. case year_data d of None \<Rightarrow> 0 | Some rows \<Rightarrow> sum_list (map cases rows)) gdf;
          merged_deaths = map (\<lambda>d. map_option (\<lambda>rows. sum_list (map deaths rows)) (year_data d)) gdf;
          merged_population = map (\<lambda>d. map_option (\<lambda>rows. population (hd rows)) (year_data d)) gdf;
          merged_incidence =
            map (\<lambda>d. fillna0 (case year_data d of None \<Rightarrow> NaN
                   | Some rows \<Rightarrow>
                       pd_times (pd_div (sum_list (map cases rows)) (population (hd rows))) 100000))
              gdf
      in if sum_list merged_cases = 0 then None
         else
           (case moran merged_cases of
              None \<Rightarrow> None
            | Some (q, p_sim) \<Rightarrow>
                if length q \<noteq> length gdf \<or> length p_sim \<noteq> length gdf then None
                else
                  Some (map (\<lambda>(d, c, dt, pop, ir, qi, pv, cl).
                               \<lparr>lr_district = d, lr_cases = c, lr_deaths = dt, lr_population = pop,
                                lr_incidence_rate = ir, lisa_quadrant = qi, lisa_pvalue = pv,
                                lisa_cluster = cl\<rparr>)
                          (zip gdf (zip merged_cases (zip merged_deaths (zip merged_population
                             (zip merged_incidence (zip q (zip p_sim
                                (classify_clusters q p_sim)))))))))))"

text \<open>
  The computation loop of \<^verbatim>\<open>main\<close>: the slider value \<^verbatim>\<open>significance_level\<close> is in scope, and
  \<^verbatim>\<open>compute_lisa_for_year(gdf, w, df, year)\<close> is called for each selected year without it; the
  years with a result are kept.
\<close>

definition lisa_results ::
  "(nat list \<Rightarrow> (int list \<times> real list) option) \<Rightarrow> string list \<Rightarrow> dataframe \<Rightarrow> int list \<Rightarrow> real
     \<Rightarrow> (int \<times> lisa_row list) list" where
  "lisa_results moran gdf df selected_years significance_level =
     List.map_filter
       (\<lambda>year. map_option (\<lambda>result. (year, result)) (compute_lisa_for_year moran gdf df year))
       selected_years"

text \<open>
  A one-district example: the district has 9 cases in 2024, and the library reports quadrant 1
  (High-High) with permutation p-value 0.03.
\<close>

definition lisa_example_df :: dataframe where
  "lisa_example_df = history_rows ''Garoua'' 1 [9]"

definition lisa_example_moran :: "nat list \<Rightarrow> (int list \<times> real list) option" where
  "lisa_example_moran y = Some ([1], [0.03])"

text \<open>A year with no case: the district reports 0 cases in each of its weeks of 2024.\<close>

definition lisa_zero_df :: dataframe where
  "lisa_zero_df = history_rows ''Garoua'' 1 [0, 0, 0]"

section \<open>CSV export file names\<close>

text \<open>Python's \<^verbatim>\<open>str\<close> of an integer, as an f-string prints it.\<close>

function str_nat :: "nat \<Rightarrow> string" where
  "str_nat n =
     (if n < 10 then [char_of (48 + n)] else str_nat (n div 10) @ [char_of (48 + n mod 10)])"
  by pat_completeness auto
termination
  by (relation "measure id") auto

declare str_nat.simps [simp del]

definition str_int :: "int \<Rightarrow> string" where
  "str_int i = (if i < 0 then CHR ''-'' # str_nat (nat (- i)) else str_nat (nat i))"

text \<open>Zero padding to a width, as \<^verbatim>\<open>strftime\<close> does for \<^verbatim>\<open>%Y\<close>, \<^verbatim>\<open>%m\<close>, \<^verbatim>\<open>%d\<close>, \<^verbatim>\<open>%H\<close>, \<^verbatim>\<open>%M\<close>.\<close>

definition zfill :: "nat \<Rightarrow> string \<Rightarrow> string" where
  "zfill k s = replicate (k - length s) CHR ''0'' @ s"

record datetime =
  dt_year :: nat
  dt_month :: nat
  dt_day :: nat
  dt_hour :: nat
  dt_minute :: nat

text \<open>\<^verbatim>\<open>datetime.now().strftime('%Y%m%d_%H%M')\<close>\<close>

definition strftime_ymd_hm :: "datetime \<Rightarrow> string" where
  "strftime_ymd_hm t =
     zfill 4 (str_nat (dt_year t)) @ zfill 2 (str_nat (dt_month t)) @ zfill 2 (str_nat (dt_day t))
     @ ''_'' @ zfill 2 (str_nat (dt_hour t)) @ zfill 2 (str_nat (dt_minute t))"

text \<open>
  The state of the Data Explorer page (\<^verbatim>\<open>pages/5_Data_Explorer_BILINGUAL.py\<close>) when an export
  button is drawn: the sidebar filters, the language and the clock.
\<close>

record explorer_state =
  ex_selected_years :: "int list"
  ex_week_range :: "int \<times> int"
  ex_selected_regions :: "string list"
  ex_selected_districts :: "string list"
  ex_lang :: string
  ex_now :: datetime

text \<open>
  \<^verbatim>\<open>file_name=f"meningitis_filtered_{datetime.now().strftime('%Y%m%d_%H%M')}_{lang}.csv"\<close> and
  \<^verbatim>\<open>file_name=f"statistics_{datetime.now().strftime('%Y%m%d_%H%M')}_{lang}.csv"\<close>
\<close>

definition explorer_filtered_file_name :: "explorer_state \<Rightarrow> string" where
  "explorer_filtered_file_name st =
     ''meningitis_filtered_'' @ strftime_ymd_hm (ex_now st) @ ''_'' @ ex_lang st @ ''.csv''"

definition explorer_statistics_file_name :: "explorer_state \<Rightarrow> string" where
  "explorer_statistics_file_name st =
     ''statistics_'' @ strftime_ymd_hm (ex_now st) @ ''_'' @ ex_lang st @ ''.csv''"

text \<open>
  The download section of the LISA page: in single-year mode
  \<^verbatim>\<open>file_name=f"lisa_clusters_{year}_{lang}.csv"\<close> with \<^verbatim>\<open>year = selected_years[0]\<close>, otherwise
  \<^verbatim>\<open>file_name=f"lisa_multi_year_summary_{lang}.csv"\<close>. In single-year mode \<^verbatim>\<open>selected_years\<close> is
  the one-element list made from the select box, so its head exists. The expression reads
  no clock.
\<close>

datatype analysis_mode = SingleYear | MultiYearComparison | AllYearsGrid

record lisa_state =
  ls_analysis_mode :: analysis_mode
  ls_selected_years :: "int list"
  ls_significance_level :: real
  ls_lang :: string
  ls_now :: datetime

definition lisa_file_name :: "lisa_state \<Rightarrow> string" where
  "lisa_file_name st =
     (if ls_analysis_mode st = SingleYear
      then ''lisa_clusters_'' @ str_int (hd (ls_selected_years st)) @ ''_'' @ ls_lang st @ ''.csv''
      else ''lisa_multi_year_summary_'' @ ls_lang st @ ''.csv'')"

definition example_clock :: datetime where
  "example_clock = \<lparr>dt_year = 2025, dt_month = 3, dt_day = 7, dt_hour = 9, dt_minute = 5\<rparr>"

definition example_explorer_state :: explorer_state where
  "example_explorer_state =
     \<lparr>ex_selected_years = [2023], ex_week_range = (1, 53), ex_selected_regions = [''Nord''],
      ex_selected_districts = [], ex_lang = ''en'', ex_now = example_clock\<rparr>"

definition example_lisa_state :: lisa_state where
  "example_lisa_state =
     \<lparr>ls_analysis_mode = SingleYear, ls_selected_years = [2023], ls_significance_level = 0.05,
      ls_lang = ''en'', ls_now = example_clock\<rparr>"

section \<open>Properties of the forecasting layer\<close>

subsection \<open>Means, windows and lengths\<close>

lemma sum_list_const:
  "(\<And>x. x \<in> set xs \<Longrightarrow> x = c) \<Longrightarrow> sum_list xs = length xs * (c::nat)"
  by (induction xs) auto

lemma mean_const:
  assumes "xs \<noteq> []" and "\<And>x. x \<in> set xs \<Longrightarrow> x = c"
  shows "mean xs = real c"
proof -
  have "sum_list xs = length xs * c"
    using assms(2) by (rule sum_list_const)
  moreover have "length xs > 0" using assms(1) by simp
  ultimately show ?thesis by (simp add: mean_def)
qed

lemma length_nlargest: "length (nlargest n df) = min n (length df)"
  by (simp add: nlargest_def min.commute)

lemma length_nsmallest: "length (nsmallest n df) = min n (length df)"
  by (simp add: nsmallest_def min.commute)

lemma set_nlargest: "set (nlargest n df) \<subseteq> set df"
  using set_take_subset [of n "sort_key (\<lambda>r. (- data_year r, - week_number r)) df"]
  by (simp add: nlargest_def)

lemma set_nsmallest: "set (nsmallest n df) \<subseteq> set df"
  using set_take_subset [of n "sort_key (\<lambda>r. (data_year r, week_number r)) df"]
  by (simp add: nsmallest_def)

lemma set_df_tail: "set (df_tail n df) \<subseteq> set df"
  by (simp add: df_tail_def set_drop_subset)

lemma set_df_head: "set (df_head n df) \<subseteq> set df"
  by (simp add: df_head_def set_take_subset)

lemma length_df_tail: "length (df_tail n df) = min n (length df)"
  by (simp add: df_tail_def)

lemma length_df_head: "length (df_head n df) = min n (length df)"
  by (simp add: df_head_def min.commute)

lemma mean_cases_const:
  assumes "rs \<noteq> []" and "set rs \<subseteq> A" and "\<forall>r\<in>A. cases r = c"
  shows "mean (map cases rs) = real c"
  using assms by (intro mean_const) auto

subsection \<open>When there is no prediction\<close>

lemma bilingual_None_iff:
  "make_simple_prediction_bilingual df d w = None \<longleftrightarrow> length (rows_of_district df d) < 12"
  by (simp add: make_simple_prediction_bilingual_def Let_def)

lemma simple_None_iff:
  "make_simple_prediction df d w = None \<longleftrightarrow> length (rows_of_district df d) < 4"
  by (auto simp add: make_simple_prediction_def Let_def length_df_tail)

subsection \<open>Constant histories\<close>

lemma bilingual_const:
  assumes len: "12 \<le> length (rows_of_district df d)"
    and c: "\<forall>r\<in>set (rows_of_district df d). cases r = c"
  shows "make_simple_prediction_bilingual df d w = Some (real c)"
proof -
  let ?dd = "rows_of_district df d"
  let ?rec = "nlargest 12 ?dd"
  have l12: "length ?rec = 12" using len by (simp add: length_nlargest)
  have sub: "set ?rec \<subseteq> set ?dd" by (rule set_nlargest)
  have m12: "mean (map cases ?rec) = real c"
    using l12 sub c by (intro mean_cases_const [where A = "set ?dd"]) auto
  have l4: "length (nlargest 4 ?rec) = 4" using l12 by (simp add: length_nlargest)
  have m4: "mean (map cases (nlargest 4 ?rec)) = real c"
    using l4 set_nlargest [of 4 ?rec] sub c
    by (intro mean_cases_const [where A = "set ?dd"]) auto
  have l8: "length (nsmallest 8 (nlargest 12 ?rec)) = 8"
    using l12 by (simp add: length_nsmallest length_nlargest)
  have m8: "mean (map cases (nsmallest 8 (nlargest 12 ?rec))) = real c"
    using l8 set_nsmallest [of 8 "nlargest 12 ?rec"] set_nlargest [of 12 ?rec] sub c
    by (intro mean_cases_const [where A = "set ?dd"]) auto
  show ?thesis
    using len l12 by (simp add: make_simple_prediction_bilingual_def Let_def m12 m4 m8)
qed

lemma simple_const:
  assumes len: "12 \<le> length (rows_of_district df d)"
    and c: "\<forall>r\<in>set (rows_of_district df d). cases r = c"
  shows "make_simple_prediction df d w = Some (real c)"
proof -
  let ?dd = "rows_of_district df d"
  let ?rec = "df_tail 12 ?dd"
  have l12: "length ?rec = 12" using len by (simp add: length_df_tail)
  have sub: "set ?rec \<subseteq> set ?dd" by (rule set_df_tail)
  have l4: "length (df_tail 4 ?rec) = 4" using l12 by (simp add: length_df_tail)
  have m4: "mean (map cases (df_tail 4 ?rec)) = real c"
    using l4 set_df_tail [of 4 ?rec] sub c
    by (intro mean_cases_const [where A = "set ?dd"]) auto
  have h4: "length (df_head 4 ?rec) = 4" using l12 by (simp add: length_df_head)
  have mh: "mean (map cases (df_head 4 ?rec)) = real c"
    using h4 set_df_head [of 4 ?rec] sub c
    by (intro mean_cases_const [where A = "set ?dd"]) auto
  show ?thesis
    using l12 by (simp add: make_simple_prediction_def Let_def m4 mh)
qed

subsection \<open>The scenario histories, evaluated\<close>

lemma rows_history_8: "rows_of_district history_8 ''Garoua'' = history_8"
  by (simp add: history_8_def rows_of_district_def)

lemma length_history_8: "length history_8 = 8"
  by (simp add: history_8_def)

lemma bilingual_history_8: "make_simple_prediction_bilingual history_8 ''Garoua'' 1 = None"
  by (simp add: bilingual_None_iff rows_history_8 length_history_8)

lemma simple_history_8: "make_simple_prediction history_8 ''Garoua'' 1 = Some 72.5"
  by (simp add: make_simple_prediction_def rows_history_8)
    (simp add: history_8_def df_tail_def df_head_def mean_def)

lemma rows_history_12: "rows_of_district history_12 ''Garoua'' = history_12"
  by (simp add: history_12_def rows_of_district_def)

lemma recent_12_cases:
  "map cases (nlargest 12 history_12) = [50, 50, 50, 50, 5, 5, 5, 5, 5, 5, 5, 5]"
  by code_simp

lemma recent_4_cases: "map cases (nlargest 4 (nlargest 12 history_12)) = [50, 50, 50, 50]"
  by code_simp

lemma previous_8_cases:
  "map cases (nsmallest 8 (nlargest 12 (nlargest 12 history_12))) = [5, 5, 5, 5, 5, 5, 5, 5]"
  by code_simp

lemma length_history_12: "length history_12 = 12"
  by (simp add: history_12_def)

lemma bilingual_history_12: "make_simple_prediction_bilingual history_12 ''Garoua'' 1 = Some 200"
  by (simp add: make_simple_prediction_bilingual_def rows_history_12 recent_12_cases
      recent_4_cases previous_8_cases length_nlargest length_history_12 Let_def mean_def)

lemma rows_history_3: "length (rows_of_district history_3 ''Garoua'') = 3"
  by (simp add: history_3_def rows_of_district_def)

lemma rows_history_const_12:
  "length (rows_of_district history_const_12 ''Garoua'') = 12
   \<and> (\<forall>r\<in>set (rows_of_district history_const_12 ''Garoua''). cases r = 7)"
  by code_simp

subsection \<open>Claim C1: the scenario [5,5,5,5,50,50,50,50] with a horizon of one week\<close>

text \<open>
  Claim C1, as amended. On the district whose history is the 8 weekly observations
  5, 5, 5, 5, 50, 50, 50, 50 and for a horizon of 1 week, \<^verbatim>\<open>make_simple_prediction\<close> of
  \<^verbatim>\<open>4_Predictions_BILINGUAL.py\<close> returns \<^verbatim>\<open>None\<close> (it asks for 12 observations), and
  \<^verbatim>\<open>make_simple_prediction\<close> of \<^verbatim>\<open>4_Predictions.py\<close> returns 72.5, that is 50 + 0.5 * (50 - 5).
  On the 12 observations 5 (eight times), 50 (four times) the bilingual page returns 200:
  the mean of all 12 observations, 20, times the trend factor 50 / 5 = 10 to the power 1.
\<close>

theorem make_simple_prediction_scenario:
  "make_simple_prediction_bilingual history_8 ''Garoua'' 1 = None
   \<and> make_simple_prediction history_8 ''Garoua'' 1 = Some 72.5
   \<and> make_simple_prediction_bilingual history_12 ''Garoua'' 1 = Some 200"
  by (simp add: bilingual_history_8 simple_history_8 bilingual_history_12)

text \<open>
  Claim C1 as stated fails: on the 8-observation scenario neither page returns 500.
\<close>

theorem make_simple_prediction_scenario_not_500:
  "make_simple_prediction_bilingual history_8 ''Garoua'' 1 \<noteq> Some 500
   \<and> make_simple_prediction history_8 ''Garoua'' 1 \<noteq> Some 500"
  by (simp add: bilingual_history_8 simple_history_8)

subsection \<open>Claim C2: insufficient history\<close>

text \<open>
  Claim C2, as amended. For every frame, district and horizon, \<^verbatim>\<open>make_simple_prediction\<close> of
  \<^verbatim>\<open>4_Predictions_BILINGUAL.py\<close> returns \<^verbatim>\<open>None\<close> exactly when the district has fewer than 12
  observations, and \<^verbatim>\<open>make_simple_prediction\<close> of \<^verbatim>\<open>4_Predictions.py\<close> returns \<^verbatim>\<open>None\<close> exactly
  when the district has fewer than 4 observations; otherwise each returns a number.
\<close>

theorem make_simple_prediction_None_iff:
  "(make_simple_prediction_bilingual df d w = None \<longleftrightarrow> length (rows_of_district df d) < 12)
   \<and> (make_simple_prediction df d w = None \<longleftrightarrow> length (rows_of_district df d) < 4)"
  by (simp add: bilingual_None_iff simple_None_iff)

text \<open>
  Claim C2 as stated fails on the bilingual page: the 8-observation scenario has at least 4
  observations and no prediction.
\<close>

theorem bilingual_prediction_None_with_8_rows:
  "4 \<le> length (rows_of_district history_8 ''Garoua'')
   \<and> make_simple_prediction_bilingual history_8 ''Garoua'' 1 = None"
  by (simp add: bilingual_history_8 rows_history_8 length_history_8)

subsection \<open>Claim C10: the two forecast implementations compared\<close>

text \<open>
  Claim C10, as amended. The two implementations of \<^verbatim>\<open>make_simple_prediction\<close> return the same
  result when the district has fewer than 4 observations (both return \<^verbatim>\<open>None\<close>) and when it
  has at least 12 observations that all carry the same case count (both return that count).
\<close>

theorem predictions_agree_short_or_constant:
  "(length (rows_of_district df d) < 4 \<longrightarrow>
      make_simple_prediction_bilingual df d w = None \<and> make_simple_prediction df d w = None)
   \<and> (12 \<le> length (rows_of_district df d) \<and> (\<forall>r\<in>set (rows_of_district df d). cases r = c) \<longrightarrow>
      make_simple_prediction_bilingual df d w = Some (real c)
      \<and> make_simple_prediction df d w = Some (real c))"
  by (simp add: bilingual_None_iff simple_None_iff bilingual_const simple_const)

text \<open>
  Both cases at concrete histories: three observations, and twelve observations of 7 cases.
\<close>

theorem predictions_agree_short_or_constant_witness:
  "make_simple_prediction_bilingual history_3 ''Garoua'' 1 = None
   \<and> make_simple_prediction history_3 ''Garoua'' 1 = None
   \<and> make_simple_prediction_bilingual history_const_12 ''Garoua'' 1 = Some 7
   \<and> make_simple_prediction history_const_12 ''Garoua'' 1 = Some 7"
  using predictions_agree_short_or_constant [of history_3 "''Garoua''" 1 7]
    predictions_agree_short_or_constant [of history_const_12 "''Garoua''" 1 7]
    rows_history_3 rows_history_const_12
  by simp

text \<open>
  Claim C10 as stated fails: on the 8-observation scenario the bilingual page has no
  prediction and the other page predicts 72.5.
\<close>

theorem predictions_differ_on_scenario:
  "make_simple_prediction_bilingual history_8 ''Garoua'' 1
   \<noteq> make_simple_prediction history_8 ''Garoua'' 1"
  by (simp add: bilingual_history_8 simple_history_8)

section \<open>Properties of the risk tiers\<close>

subsection \<open>The cascade of strict comparisons\<close>

lemma exceeds_mono: "exceeds v2 t \<Longrightarrow> v2 \<le> v1 \<Longrightarrow> exceeds v1 t"
  by (cases t) (auto simp: exceeds_def)








subsection \<open>The ranking scenario, evaluated\<close>

lemma ranking_cases: "map cases ranking_frame = [100, 80, 50, 20, 5]"
  by (simp add: ranking_frame_def)

lemma ranking_p75: "ranking_quantile (map cases ranking_frame) 0.75 = Some 80"
  by (simp add: ranking_cases ranking_quantile_def)

lemma ranking_p50: "ranking_quantile (map cases ranking_frame) 0.50 = Some 50"
  by (simp add: ranking_cases ranking_quantile_def)

lemma ranking_p90: "ranking_quantile (map cases ranking_frame) 0.90 = Some 92"
  by (simp add: ranking_cases ranking_quantile_def)


lemma classify_80: "classify_risk_level ranking_quantile 80 ranking_frame = Moderate"
  using ranking_p75 ranking_p90 ranking_p50
  by (simp add: classify_risk_level_def Let_def exceeds_def)

lemma classify_92: "classify_risk_level ranking_quantile 92 ranking_frame = High"
  using ranking_p75 ranking_p90 ranking_p50
  by (simp add: classify_risk_level_def Let_def exceeds_def)

subsection \<open>Claim C5: a value on a percentile falls into the lower tier\<close>



subsection \<open>Claim C6: the tier grows with the value\<close>

text \<open>
  Claim C6. For a fixed reference frame, and whatever \<^verbatim>\<open>quantile\<close> returns on it,
  \<^verbatim>\<open>classify_risk_level\<close> is monotone: if \<open>v2 \<le> v1\<close> then the tier of \<open>v1\<close> is the tier of
  \<open>v2\<close> or a higher one, in the order Low < Moderate < High < Critical.
\<close>

theorem classify_risk_level_mono:
  "v2 \<le> v1 \<Longrightarrow>
   tier_rank (classify_risk_level Q v2 ref) \<le> tier_rank (classify_risk_level Q v1 ref)"
  using exceeds_mono [of v2 _ v1]
  by (auto simp add: classify_risk_level_def Let_def)

text \<open>On the ranking scenario: 80 is Moderate and 92 is High.\<close>

theorem classify_risk_level_mono_witness:
  "(80::real) \<le> 92
   \<and> tier_rank (classify_risk_level ranking_quantile 80 ranking_frame)
      \<le> tier_rank (classify_risk_level ranking_quantile 92 ranking_frame)
   \<and> classify_risk_level ranking_quantile 80 ranking_frame = Moderate
   \<and> classify_risk_level ranking_quantile 92 ranking_frame = High"
  using classify_risk_level_mono [of 80 92 ranking_quantile ranking_frame] classify_80 classify_92
  by simp

section \<open>Properties of the aggregation layer\<close>

subsection \<open>Sums over sorted frames and over groups\<close>

lemma sum_list_insort_key:
  "sum_list (map g (insort_key f x xs)) = g x + sum_list (map (g :: 'a \<Rightarrow> nat) xs)"
  by (induction xs) auto

lemma sum_list_sort_key:
  "sum_list (map g (sort_key f xs)) = sum_list (map (g :: 'a \<Rightarrow> nat) xs)"
  by (induction xs) (auto simp: sum_list_insort_key)

lemma sum_list_indicator:
  "distinct ks \<Longrightarrow>
   sum_list (map (\<lambda>k. if a = k then v else 0) ks) = (if a \<in> set ks then (v::nat) else 0)"
  by (induction ks) auto

lemma sum_list_groups:
  assumes "distinct ks" and "key ` set xs \<subseteq> set ks"
  shows "sum_list (map (\<lambda>k. sum_list (map f (filter (\<lambda>r. key r = k) xs))) ks)
         = sum_list (map (f :: 'a \<Rightarrow> nat) xs)"
  using assms(2)
proof (induction xs)
  case Nil
  then show ?case by simp
next
  case (Cons x xs)
  have split: "\<And>k. sum_list (map f (filter (\<lambda>r. key r = k) (x # xs)))
      = (if key x = k then f x else 0) + sum_list (map f (filter (\<lambda>r. key r = k) xs))"
    by simp
  have "sum_list (map (\<lambda>k. sum_list (map f (filter (\<lambda>r. key r = k) (x # xs)))) ks)
        = sum_list (map (\<lambda>k. if key x = k then f x else 0) ks)
          + sum_list (map (\<lambda>k. sum_list (map f (filter (\<lambda>r. key r = k) xs))) ks)"
    unfolding split by (simp add: sum_list_addf)
  also have "sum_list (map (\<lambda>k. if key x = k then f x else 0) ks) = f x"
    using Cons.prems assms(1) by (simp add: sum_list_indicator)
  also have "sum_list (map (\<lambda>k. sum_list (map f (filter (\<lambda>r. key r = k) xs))) ks)
             = sum_list (map f xs)"
    using Cons by simp
  finally show ?case by simp
qed

lemma groupby_sum:
  "sum_list (map (\<lambda>g. sum_list (map f (snd g))) (groupby key df))
   = sum_list (map (f :: 'a \<Rightarrow> nat) df)"
proof -
  have "distinct (sort (remdups (map key df)))" by simp
  moreover have "key ` set df \<subseteq> set (sort (remdups (map key df)))" by simp
  ultimately have "sum_list (map (\<lambda>k. sum_list (map f (filter (\<lambda>r. key r = k) df)))
      (sort (remdups (map key df)))) = sum_list (map f df)"
    by (rule sum_list_groups)
  then show ?thesis by (simp add: groupby_def comp_def)
qed

lemma total_cases_regional_row_of:
  "total_cases (regional_row_of g) = sum_list (map cases (snd g))"
  by (simp add: regional_row_of_def Let_def)

lemma kpi_total_cases_eq:
  "kpi_total_cases (compute_kpis df ys rs) = sum_list (map cases (filter_df df ys rs))"
  by (simp add: compute_kpis_def Let_def)

subsection \<open>Claim C7: the regional totals add up to the overall total\<close>

text \<open>
  Claim C7. For every frame and every selection of years and regions, the per-region case
  totals of \<^verbatim>\<open>get_regional_data\<close> sum to the \<^verbatim>\<open>total_cases\<close> of \<^verbatim>\<open>compute_kpis\<close> on the same
  selection: no record is counted twice and none is lost.
\<close>

theorem regional_totals_sum_to_total:
  "sum_list (map total_cases (get_regional_data df selected_years selected_regions))
   = kpi_total_cases (compute_kpis df selected_years selected_regions)"
proof -
  let ?f = "filter_df df selected_years selected_regions"
  have "sum_list (map total_cases (get_regional_data df selected_years selected_regions))
        = sum_list (map total_cases (map regional_row_of (groupby region ?f)))"
    by (simp add: get_regional_data_def Let_def sum_list_sort_key)
  also have "\<dots> = sum_list (map (\<lambda>g. sum_list (map cases (snd g))) (groupby region ?f))"
    by (simp add: comp_def total_cases_regional_row_of)
  also have "\<dots> = sum_list (map cases ?f)" by (rule groupby_sum)
  finally show ?thesis by (simp add: kpi_total_cases_eq)
qed

subsection \<open>The overall CFR of \<^verbatim>\<open>compute_kpis\<close>\<close>

lemma overall_cfr_eq:
  "overall_cfr (compute_kpis df ys rs) =
     (if kpi_total_cases (compute_kpis df ys rs) = 0 then 0
      else real (kpi_total_deaths (compute_kpis df ys rs))
           / real (kpi_total_cases (compute_kpis df ys rs)) * 100)"
  by (simp add: compute_kpis_def Let_def)

lemma sum_list_deaths_le:
  "(\<And>r. r \<in> set rows \<Longrightarrow> deaths r \<le> cases r) \<Longrightarrow>
   sum_list (map deaths rows) \<le> sum_list (map cases rows)"
  by (induction rows) (auto simp: add_mono)

lemma set_filter_df: "set (filter_df df ys rs) \<subseteq> set df"
  by (auto simp: filter_df_def)

lemma overall_cfr_range:
  assumes "\<forall>r\<in>set df. deaths r \<le> cases r"
  shows "0 \<le> overall_cfr (compute_kpis df ys rs) \<and> overall_cfr (compute_kpis df ys rs) \<le> 100"
proof -
  let ?f = "filter_df df ys rs"
  have le: "sum_list (map deaths ?f) \<le> sum_list (map cases ?f)"
    using assms set_filter_df [of df ys rs] by (intro sum_list_deaths_le) auto
  then have "real (sum_list (map deaths ?f)) \<le> real (sum_list (map cases ?f))" by simp
  then show ?thesis
    by (simp add: compute_kpis_def Let_def divide_le_eq)
qed

subsection \<open>Claim C4: the CFR when no case is recorded\<close>

lemma death_without_case_filter:
  "filter_df death_without_case [2024] [''Nord''] = death_without_case"
  by (simp add: filter_df_def death_without_case_def)

text \<open>
  Claim C4 says that the computed CFR is exactly 0 whenever the case sum is 0. On a frame
  whose only record has 1 death and 0 cases, \<^verbatim>\<open>compute_kpis\<close> gives 0 through its guard
  \<^verbatim>\<open>if total_cases > 0 else 0\<close>, while the yearly CFR of \<^verbatim>\<open>get_temporal_data\<close> and the
  regional CFR of \<^verbatim>\<open>get_regional_data\<close> are infinite: \<^verbatim>\<open>.fillna(0)\<close> replaces the NaN of
  \<open>0 / 0\<close> and leaves the \<open>inf\<close> of \<open>1 / 0\<close>.
\<close>

theorem cfr_infinite_on_death_without_case:
  "get_temporal_data death_without_case [2024] [''Nord'']
     = [\<lparr>yr_data_year = 2024, yr_cases = 0, yr_deaths = 1, yr_cfr = PosInf\<rparr>]
   \<and> map cfr (get_regional_data death_without_case [2024] [''Nord'']) = [PosInf]
   \<and> overall_cfr (compute_kpis death_without_case [2024] [''Nord'']) = 0"
proof -
  have "get_temporal_data death_without_case [2024] [''Nord'']
     = [\<lparr>yr_data_year = 2024, yr_cases = 0, yr_deaths = 1, yr_cfr = PosInf\<rparr>]"
    by (simp add: get_temporal_data_def death_without_case_filter Let_def)
      (simp add: death_without_case_def groupby_def pd_div_def)
  moreover have "map cfr (get_regional_data death_without_case [2024] [''Nord'']) = [PosInf]"
    by (simp add: get_regional_data_def death_without_case_filter Let_def)
      (simp add: death_without_case_def groupby_def pd_div_def regional_row_of_def)
  moreover have "overall_cfr (compute_kpis death_without_case [2024] [''Nord'']) = 0"
    by (simp add: compute_kpis_def death_without_case_filter Let_def)
      (simp add: death_without_case_def)
  ultimately show ?thesis by simp
qed

section \<open>Properties of the spatial cluster labels\<close>

subsection \<open>The labels, row by row\<close>

lemma classify_clusters_nth:
  assumes "length p_sim = length q" and "i < length q"
  shows "classify_clusters q p_sim ! i =
     (if p_sim ! i < 0.05 then
        (if q ! i = 1 then HighHigh else if q ! i = 2 then LowHigh
         else if q ! i = 3 then LowLow else if q ! i = 4 then HighLow else NotSignificant)
      else NotSignificant)"
  using assms
  by (simp add: classify_clusters_def quadrant_labels_def assign_label_def Let_def)

lemma length_classify_clusters:
  "length p_sim = length q \<Longrightarrow> length (classify_clusters q p_sim) = length q"
  by (simp add: classify_clusters_def quadrant_labels_def assign_label_def Let_def)

lemma map_of_groupby:
  "map_of (groupby key df) k = Some rows \<Longrightarrow> rows = filter (\<lambda>r. key r = k) df"
  by (auto simp: groupby_def dest!: map_of_SomeD)

lemma sum_list_zero:
  "(\<And>r. r \<in> set rows \<Longrightarrow> f r = (0::nat)) \<Longrightarrow> sum_list (map f rows) = 0"
  by (induction rows) auto

subsection \<open>The one-district example, evaluated\<close>

lemma example_merged:
  "map_of (groupby district_clean (filter (\<lambda>r. data_year r = 2024) lisa_example_df)) ''Garoua''
   = Some lisa_example_df"
  by (simp add: lisa_example_df_def groupby_def)

lemma example_clusters: "classify_clusters [1] [0.03] = [HighHigh]"
  by (simp add: classify_clusters_def quadrant_labels_def assign_label_def Let_def)

lemma example_lisa:
  "compute_lisa_for_year lisa_example_moran [''Garoua''] lisa_example_df 2024
   = Some [\<lparr>lr_district = ''Garoua'', lr_cases = 9, lr_deaths = Some 0, lr_population = Some 1000,
       lr_incidence_rate = Finite 900, lisa_quadrant = 1, lisa_pvalue = 0.03,
       lisa_cluster = HighHigh\<rparr>]"
  using example_clusters
  by (simp add: compute_lisa_for_year_def Let_def example_merged lisa_example_moran_def)
    (simp add: lisa_example_df_def pd_div_def)

lemma zero_df_cases: "\<forall>r\<in>set lisa_zero_df. data_year r = 2024 \<longrightarrow> cases r = 0"
  by (simp add: lisa_zero_df_def)

subsection \<open>Claim C3: the significance level chosen on the slider\<close>

text \<open>
  Claim C3 says that a district whose p-value is at least the chosen level \<open>\<alpha>\<close> is labelled
  Not Significant. With the slider at 0.01, a district in quadrant 1 with p-value 0.03 is
  labelled High-High: the mask of \<^verbatim>\<open>compute_lisa_for_year\<close> is \<^verbatim>\<open>lisa.p_sim < 0.05\<close> whatever
  the slider says, and \<^verbatim>\<open>main\<close> never passes \<^verbatim>\<open>significance_level\<close> on.
\<close>

theorem lisa_label_ignores_significance_level:
  "(0.01::real) \<le> 0.03
   \<and> map (\<lambda>(y, rows). (y, map (\<lambda>r. (lisa_quadrant r, lisa_pvalue r, lisa_cluster r)) rows))
       (lisa_results lisa_example_moran [''Garoua''] lisa_example_df [2024] 0.01)
     = [(2024, [(1, 0.03, HighHigh)])]"
  using example_lisa by (simp add: lisa_results_def List.map_filter_def)

subsection \<open>Claim C8: a year without cases\<close>

text \<open>
  Claim C8. If every record of the year has 0 cases, \<^verbatim>\<open>compute_lisa_for_year\<close> returns
  \<^verbatim>\<open>None\<close> for that year, whatever the geometry frame and whatever the spatial statistics
  library would have answered; it neither raises nor returns labelled rows.
\<close>

theorem compute_lisa_for_year_no_cases:
  assumes "\<forall>r\<in>set df. data_year r = year \<longrightarrow> cases r = 0"
  shows "compute_lisa_for_year moran gdf df year = None"
proof -
  let ?yd = "map_of (groupby district_clean (filter (\<lambda>r. data_year r = year) df))"
  have zero: "(case ?yd d of None \<Rightarrow> 0 | Some rows \<Rightarrow> sum_list (map cases rows)) = 0" for d
  proof (cases "?yd d")
    case None
    then show ?thesis by simp
  next
    case (Some rows)
    then have "rows = filter (\<lambda>r. district_clean r = d) (filter (\<lambda>r. data_year r = year) df)"
      by (rule map_of_groupby)
    then have "sum_list (map cases rows) = 0"
      using assms by (intro sum_list_zero) auto
    with Some show ?thesis by simp
  qed
  have "sum_list
      (map (\<lambda>d. case ?yd d of None \<Rightarrow> 0 | Some rows \<Rightarrow> sum_list (map cases rows)) gdf) = 0"
    by (simp add: zero)
  then show ?thesis
    by (simp add: compute_lisa_for_year_def Let_def)
qed

text \<open>
  A district with three weeks of 0 cases in 2024 gets no result for 2024, although the
  library stub would have answered.
\<close>

theorem compute_lisa_for_year_no_cases_witness:
  "compute_lisa_for_year lisa_example_moran [''Garoua''] lisa_zero_df 2024 = None"
  using compute_lisa_for_year_no_cases [of lisa_zero_df 2024 lisa_example_moran "[''Garoua'']"]
    zero_df_cases
  by simp

section \<open>Properties of the export file names\<close>

lemma sublist_mid: "sublist xs (ps @ xs @ ss)"
  by (auto simp: sublist_def)

lemma explorer_filtered_embeds_time:
  "sublist (strftime_ymd_hm (ex_now st)) (explorer_filtered_file_name st)"
  unfolding explorer_filtered_file_name_def by (rule sublist_mid)

lemma explorer_statistics_embeds_time:
  "sublist (strftime_ymd_hm (ex_now st)) (explorer_statistics_file_name st)"
  unfolding explorer_statistics_file_name_def by (rule sublist_mid)

lemma explorer_ignores_filters:
  "explorer_filtered_file_name
     (st\<lparr>ex_selected_years := ys, ex_week_range := wr, ex_selected_regions := rs,
         ex_selected_districts := ds\<rparr>) = explorer_filtered_file_name st
   \<and> explorer_statistics_file_name
     (st\<lparr>ex_selected_years := ys, ex_week_range := wr, ex_selected_regions := rs,
         ex_selected_districts := ds\<rparr>) = explorer_statistics_file_name st"
  by (simp add: explorer_filtered_file_name_def explorer_statistics_file_name_def)

lemma lisa_embeds_year:
  assumes "ls_analysis_mode ls = SingleYear"
  shows "sublist (str_int (hd (ls_selected_years ls))) (lisa_file_name ls)"
proof -
  have "lisa_file_name ls
     = ''lisa_clusters_'' @ str_int (hd (ls_selected_years ls)) @ (''_'' @ ls_lang ls @ ''.csv'')"
    using assms by (simp add: lisa_file_name_def)
  then show ?thesis by (simp only: sublist_mid)
qed

lemma lisa_ignores_clock: "lisa_file_name (ls\<lparr>ls_now := t\<rparr>) = lisa_file_name ls"
  by (simp add: lisa_file_name_def)

lemma explorer_embeds_lang:
  "sublist (ex_lang st) (explorer_filtered_file_name st)
   \<and> sublist (ex_lang st) (explorer_statistics_file_name st)"
proof -
  have "explorer_filtered_file_name st
     = (''meningitis_filtered_'' @ strftime_ymd_hm (ex_now st) @ ''_'') @ ex_lang st @ ''.csv''"
    by (simp add: explorer_filtered_file_name_def)
  moreover have "explorer_statistics_file_name st
     = (''statistics_'' @ strftime_ymd_hm (ex_now st) @ ''_'') @ ex_lang st @ ''.csv''"
    by (simp add: explorer_statistics_file_name_def)
  ultimately show ?thesis by (simp only: sublist_mid)
qed

lemma lisa_embeds_lang: "sublist (ls_lang ls) (lisa_file_name ls)"
proof (cases "ls_analysis_mode ls = SingleYear")
  case True
  then have "lisa_file_name ls
     = (''lisa_clusters_'' @ str_int (hd (ls_selected_years ls)) @ ''_'') @ ls_lang ls @ ''.csv''"
    by (simp add: lisa_file_name_def)
  then show ?thesis by (simp only: sublist_mid)
next
  case False
  then have "lisa_file_name ls = ''lisa_multi_year_summary_'' @ ls_lang ls @ ''.csv''"
    by (simp add: lisa_file_name_def)
  then show ?thesis by (simp only: sublist_mid)
qed

lemma example_strftime: "strftime_ymd_hm example_clock = ''20250307_0905''"
  by code_simp

lemma example_str_year: "str_int 2023 = ''2023''"
  by code_simp

lemma example_explorer_name:
  "explorer_filtered_file_name example_explorer_state
   = ''meningitis_filtered_20250307_0905_en.csv''"
  by code_simp

lemma example_lisa_name: "lisa_file_name example_lisa_state = ''lisa_clusters_2023_en.csv''"
  by code_simp

lemma example_mode: "ls_analysis_mode example_lisa_state = SingleYear"
  by (simp add: example_lisa_state_def)

lemma example_fields:
  "ex_now example_explorer_state = example_clock
   \<and> ex_lang example_explorer_state = ''en''
   \<and> ls_lang example_lisa_state = ''en''
   \<and> hd (ls_selected_years example_lisa_state) = 2023"
  by (simp add: example_explorer_state_def example_lisa_state_def)

subsection \<open>Claim C9: what the export file names embed\<close>

text \<open>
  Claim C9, as amended. The two export file names of the Data Explorer page contain the
  time stamp \<^verbatim>\<open>%Y%m%d_%H%M\<close> of the clock and the language code, and do not depend on the
  filters (years, week range, regions, districts); the export file name of the LISA page
  contains the language code and, in single-year mode, the selected year, and does not depend
  on the clock.
\<close>

theorem export_file_names_embed:
  "sublist (strftime_ymd_hm (ex_now st)) (explorer_filtered_file_name st)
   \<and> sublist (strftime_ymd_hm (ex_now st)) (explorer_statistics_file_name st)
   \<and> sublist (ex_lang st) (explorer_filtered_file_name st)
   \<and> sublist (ex_lang st) (explorer_statistics_file_name st)
   \<and> explorer_filtered_file_name
       (st\<lparr>ex_selected_years := ys, ex_week_range := wr, ex_selected_regions := rs,
           ex_selected_districts := ds\<rparr>) = explorer_filtered_file_name st
   \<and> explorer_statistics_file_name
       (st\<lparr>ex_selected_years := ys, ex_week_range := wr, ex_selected_regions := rs,
           ex_selected_districts := ds\<rparr>) = explorer_statistics_file_name st
   \<and> (ls_analysis_mode ls = SingleYear \<longrightarrow>
        sublist (str_int (hd (ls_selected_years ls))) (lisa_file_name ls))
   \<and> sublist (ls_lang ls) (lisa_file_name ls)
   \<and> lisa_file_name (ls\<lparr>ls_now := t\<rparr>) = lisa_file_name ls"
  using explorer_filtered_embeds_time explorer_statistics_embeds_time explorer_embeds_lang
    explorer_ignores_filters lisa_embeds_year lisa_embeds_lang lisa_ignores_clock
  by simp

text \<open>
  On 7 March 2025 at 09:05, in English, with the year 2023 selected: the file names are
  \<^verbatim>\<open>meningitis_filtered_20250307_0905_en.csv\<close> and \<^verbatim>\<open>lisa_clusters_2023_en.csv\<close>.
\<close>

theorem export_file_names_embed_witness:
  "sublist ''20250307_0905'' (explorer_filtered_file_name example_explorer_state)
   \<and> sublist ''en'' (explorer_filtered_file_name example_explorer_state)
   \<and> explorer_filtered_file_name example_explorer_state
       = ''meningitis_filtered_20250307_0905_en.csv''
   \<and> sublist ''2023'' (lisa_file_name example_lisa_state)
   \<and> sublist ''en'' (lisa_file_name example_lisa_state)
   \<and> lisa_file_name example_lisa_state = ''lisa_clusters_2023_en.csv''"
  using export_file_names_embed [where st = example_explorer_state and ls = example_lisa_state]
    example_strftime example_str_year example_explorer_name example_lisa_name example_mode
    example_fields
  by simp

text \<open>
  Claim C9 as stated fails: changing the selected years of the Data Explorer leaves both of
  its export file names unchanged (no filter state in them), and changing the clock leaves
  the LISA export file name unchanged (no time stamp in it).
\<close>

theorem export_file_names_miss_filter_or_time:
  "ex_selected_years (example_explorer_state\<lparr>ex_selected_years := [2019]\<rparr>)
     \<noteq> ex_selected_years example_explorer_state
   \<and> explorer_filtered_file_name (example_explorer_state\<lparr>ex_selected_years := [2019]\<rparr>)
     = explorer_filtered_file_name example_explorer_state
   \<and> explorer_statistics_file_name (example_explorer_state\<lparr>ex_selected_years := [2019]\<rparr>)
     = explorer_statistics_file_name example_explorer_state
   \<and> ls_now (example_lisa_state\<lparr>ls_now := example_clock\<lparr>dt_year := 2026\<rparr>\<rparr>)
     \<noteq> ls_now example_lisa_state
   \<and> lisa_file_name (example_lisa_state\<lparr>ls_now := example_clock\<lparr>dt_year := 2026\<rparr>\<rparr>)
     = lisa_file_name example_lisa_state"
  by (simp add: explorer_filtered_file_name_def explorer_statistics_file_name_def
      lisa_file_name_def example_explorer_state_def example_lisa_state_def example_clock_def)

end
